theory Spec2Isabelle
  imports Complex_Main
begin

section \<open>JavaScript numbers\<close>

text \<open>
  A JavaScript \<^verbatim>\<open>number\<close> is an IEEE double.  The embedding keeps the four kinds of
  value that decide the control flow and the special cases of the calculator: a finite
  value, the two infinities and NaN.  A finite value is read as the real number it
  denotes and the arithmetic on finite values is exact: the rounding of each operation
  to the nearest double, and the overflow or underflow of a finite result, are not
  part of the model.  What is proved here of a finite result is therefore proved of
  the formula over the reals; a strict order between the values at two inputs so close
  that the rounding of the doubles decides it is not a property this model can settle.
  The sign of zero is not kept.  Wherever this program divides by
  zero, the zero is the sum \<^verbatim>\<open>x + (-x)\<close>, the difference \<^verbatim>\<open>x - x\<close> or a product of
  non-negative factors, which IEEE arithmetic makes \<^verbatim>\<open>+0\<close>; so a division by zero
  takes the sign of its numerator.
\<close>

datatype jsnum = Fin real | PInf | NInf | NaN

fun isNaN :: "jsnum \<Rightarrow> bool" where
  "isNaN NaN = True"
| "isNaN _ = False"

fun js_neg :: "jsnum \<Rightarrow> jsnum" where
  "js_neg (Fin a) = Fin (- a)"
| "js_neg PInf = NInf"
| "js_neg NInf = PInf"
| "js_neg NaN = NaN"

fun js_add :: "jsnum \<Rightarrow> jsnum \<Rightarrow> jsnum" where
  "js_add NaN _ = NaN"
| "js_add _ NaN = NaN"
| "js_add (Fin a) (Fin b) = Fin (a + b)"
| "js_add PInf NInf = NaN"
| "js_add NInf PInf = NaN"
| "js_add PInf _ = PInf"
| "js_add NInf _ = NInf"
| "js_add (Fin a) b = b"

definition js_sub :: "jsnum \<Rightarrow> jsnum \<Rightarrow> jsnum" where
  "js_sub a b = js_add a (js_neg b)"

text \<open>The infinity of the sign of \<open>s\<close>, or NaN when \<open>s\<close> is zero.\<close>

definition signed_inf :: "real \<Rightarrow> jsnum" where
  "signed_inf s = (if 0 < s then PInf else if s < 0 then NInf else NaN)"

fun js_mul :: "jsnum \<Rightarrow> jsnum \<Rightarrow> jsnum" where
  "js_mul NaN _ = NaN"
| "js_mul _ NaN = NaN"
| "js_mul (Fin a) (Fin b) = Fin (a * b)"
| "js_mul (Fin a) PInf = signed_inf a"
| "js_mul (Fin a) NInf = signed_inf (- a)"
| "js_mul PInf (Fin b) = signed_inf b"
| "js_mul NInf (Fin b) = signed_inf (- b)"
| "js_mul PInf PInf = PInf"
| "js_mul NInf NInf = PInf"
| "js_mul PInf NInf = NInf"
| "js_mul NInf PInf = NInf"

fun js_div :: "jsnum \<Rightarrow> jsnum \<Rightarrow> jsnum" where
  "js_div NaN _ = NaN"
| "js_div _ NaN = NaN"
| "js_div (Fin a) (Fin b) = (if b \<noteq> 0 then Fin (a / b) else signed_inf a)"
| "js_div (Fin a) _ = Fin 0"
| "js_div PInf (Fin b) = (if 0 \<le> b then PInf else NInf)"
| "js_div NInf (Fin b) = (if 0 \<le> b then NInf else PInf)"
| "js_div _ _ = NaN"

text \<open>\<^verbatim>\<open>a > b\<close>: false as soon as one side is NaN.\<close>

fun js_gt :: "jsnum \<Rightarrow> jsnum \<Rightarrow> bool" where
  "js_gt NaN _ = False"
| "js_gt _ NaN = False"
| "js_gt (Fin a) (Fin b) = (b < a)"
| "js_gt PInf PInf = False"
| "js_gt PInf _ = True"
| "js_gt NInf _ = False"
| "js_gt (Fin a) NInf = True"
| "js_gt (Fin a) PInf = False"

text \<open>\<^verbatim>\<open>a <= b\<close>: false as soon as one side is NaN, and otherwise the converse of \<^verbatim>\<open>a > b\<close>.\<close>

definition js_le :: "jsnum \<Rightarrow> jsnum \<Rightarrow> bool" where
  "js_le a b = (\<not> isNaN a \<and> \<not> isNaN b \<and> \<not> js_gt a b)"

fun Math_exp :: "jsnum \<Rightarrow> jsnum" where
  "Math_exp (Fin x) = Fin (exp x)"
| "Math_exp PInf = PInf"
| "Math_exp NInf = Fin 0"
| "Math_exp NaN = NaN"

fun Math_log :: "jsnum \<Rightarrow> jsnum" where
  "Math_log (Fin x) = (if 0 < x then Fin (ln x) else if x = 0 then NInf else NaN)"
| "Math_log PInf = PInf"
| "Math_log NInf = NaN"
| "Math_log NaN = NaN"

fun Math_abs :: "jsnum \<Rightarrow> jsnum" where
  "Math_abs (Fin x) = Fin \<bar>x\<bar>"
| "Math_abs PInf = PInf"
| "Math_abs NInf = PInf"
| "Math_abs NaN = NaN"

text \<open>\<^verbatim>\<open>Math.min\<close> and \<^verbatim>\<open>Math.max\<close> of two arguments: NaN as soon as one is NaN.\<close>

definition Math_min :: "jsnum \<Rightarrow> jsnum \<Rightarrow> jsnum" where
  "Math_min a b = (if isNaN a \<or> isNaN b then NaN else if js_gt a b then b else a)"

definition Math_max :: "jsnum \<Rightarrow> jsnum \<Rightarrow> jsnum" where
  "Math_max a b = (if isNaN a \<or> isNaN b then NaN else if js_gt b a then b else a)"

text \<open>
  \<^verbatim>\<open>parseFloat(x.toFixed(1))\<close>.  \<^verbatim>\<open>toFixed(1)\<close> writes NaN as \<^verbatim>\<open>"NaN"\<close> and an infinity as
  \<^verbatim>\<open>"Infinity"\<close>, which \<^verbatim>\<open>parseFloat\<close> reads back; it never throws for the digit count 1.
  For a finite \<open>x\<close> below \<open>10^21\<close> in magnitude it takes the integer \<open>n\<close> with \<open>n / 10\<close>
  nearest to \<open>\<bar>x\<bar>\<close>, the larger one at a tie, and puts the sign back; from \<open>10^21\<close> on it
  writes the number in full.
\<close>

definition round1 :: "real \<Rightarrow> real" where
  "round1 x = (if x < 0 then - (of_int \<lfloor>- x * 10 + 1 / 2\<rfloor> / 10)
               else of_int \<lfloor>x * 10 + 1 / 2\<rfloor> / 10)"

fun toFixed1 :: "jsnum \<Rightarrow> jsnum" where
  "toFixed1 (Fin x) = (if \<bar>x\<bar> < 10 ^ 21 then Fin (round1 x) else Fin x)"
| "toFixed1 PInf = PInf"
| "toFixed1 NInf = NInf"
| "toFixed1 NaN = NaN"

section \<open>The calculator (utils/psychrometry)\<close>

definition getSaturationVaporPressure :: "jsnum \<Rightarrow> jsnum" where
  "getSaturationVaporPressure temp =
     js_mul (Fin 6.112)
       (Math_exp (js_div (js_mul (Fin 17.67) temp) (js_add temp (Fin 243.5))))"

text \<open>
  The sanity check \<^verbatim>\<open>if (wetTemp > dryTemp) { }\<close> at the head of the source function
  has an empty body (the clamp in it is commented out), so it is no branch here.
\<close>

definition calculateHumidity :: "jsnum \<Rightarrow> jsnum \<Rightarrow> jsnum" where
  "calculateHumidity dryTemp wetTemp =
     (let p = Fin 1013.25;
          A = Fin 0.0007947;
          esWet = getSaturationVaporPressure wetTemp;
          esDry = getSaturationVaporPressure dryTemp;
          e = js_sub esWet (js_mul (js_mul A p) (js_sub dryTemp wetTemp));
          rh = js_mul (js_div e esDry) (Fin 100);
          rh' = Math_max (Fin 0) (Math_min (Fin 100) rh)
      in toFixed1 rh')"

definition calculateDewPoint :: "jsnum \<Rightarrow> jsnum \<Rightarrow> jsnum" where
  "calculateDewPoint temp rh =
     (let a = Fin 17.27;
          b = Fin 237.7;
          alpha = js_add (js_div (js_mul a temp) (js_add b temp))
                         (Math_log (js_div rh (Fin 100.0)))
      in js_div (js_mul b alpha) (js_sub a alpha))"

text \<open>
  \<^verbatim>\<open>parseFloat\<close> on a string: leading white space is dropped, then the longest prefix
  that is a decimal literal (an optional sign, then \<^verbatim>\<open>Infinity\<close>, or digits with an
  optional fraction and exponent) gives the number; NaN when no prefix is one.  Strings
  are byte strings here, so only the ASCII white space is known to \<open>is_space\<close>.
\<close>

definition is_digit :: "char \<Rightarrow> bool" where
  "is_digit c = (c \<in> set ''0123456789'')"

definition is_space :: "char \<Rightarrow> bool" where
  "is_space c = ((of_char c :: nat) \<in> {9, 10, 11, 12, 13, 32})"

definition digits_value :: "string \<Rightarrow> nat" where
  "digits_value ds = foldl (\<lambda>n c. 10 * n + (of_char c - 48)) 0 ds"

text \<open>The exponent part at the head of \<open>r\<close>: \<^verbatim>\<open>e\<close> or \<^verbatim>\<open>E\<close>, an optional sign, digits.\<close>

definition exponent_part :: "string \<Rightarrow> int" where
  "exponent_part r =
     (case r of
        [] \<Rightarrow> 0
      | c # r' \<Rightarrow>
          if c = CHR ''e'' \<or> c = CHR ''E'' then
            (case r' of
               [] \<Rightarrow> 0
             | d # r'' \<Rightarrow>
                 if d = CHR ''-'' then - int (digits_value (takeWhile is_digit r''))
                 else if d = CHR ''+'' then int (digits_value (takeWhile is_digit r''))
                 else int (digits_value (takeWhile is_digit r')))
          else 0)"

definition decimal_value :: "string \<Rightarrow> string \<Rightarrow> int \<Rightarrow> real" where
  "decimal_value ip fp ex =
     (let m = real (digits_value ip) + real (digits_value fp) / 10 ^ length fp
      in if 0 \<le> ex then m * 10 ^ nat ex else m / 10 ^ nat (- ex))"

definition parse_unsigned :: "string \<Rightarrow> jsnum option" where
  "parse_unsigned u =
     (if take 8 u = ''Infinity'' then Some PInf
      else
        let ip = takeWhile is_digit u; r1 = dropWhile is_digit u
        in if ip \<noteq> [] then
             (case r1 of
                [] \<Rightarrow> Some (Fin (decimal_value ip [] 0))
              | c # r \<Rightarrow>
                  if c = CHR ''.'' then
                    Some (Fin (decimal_value ip (takeWhile is_digit r)
                                 (exponent_part (dropWhile is_digit r))))
                  else Some (Fin (decimal_value ip [] (exponent_part r1))))
           else
             (case r1 of
                [] \<Rightarrow> None
              | c # r \<Rightarrow>
                  if c = CHR ''.'' \<and> takeWhile is_digit r \<noteq> [] then
                    Some (Fin (decimal_value [] (takeWhile is_digit r)
                                 (exponent_part (dropWhile is_digit r))))
                  else None))"

definition parseFloat :: "string \<Rightarrow> jsnum" where
  "parseFloat value =
     (let s = dropWhile is_space value
      in case s of
           [] \<Rightarrow> NaN
         | c # r \<Rightarrow>
             if c = CHR ''-'' then
               (case parse_unsigned r of None \<Rightarrow> NaN | Some v \<Rightarrow> js_neg v)
             else if c = CHR ''+'' then
               (case parse_unsigned r of None \<Rightarrow> NaN | Some v \<Rightarrow> v)
             else
               (case parse_unsigned s of None \<Rightarrow> NaN | Some v \<Rightarrow> v))"

section \<open>The data model (types.ts)\<close>

record PsychrometricData =
  dryTemp :: jsnum
  wetTemp :: jsnum
  isPsychrometer :: bool
  confidence :: "jsnum option"

record CalculationResult = PsychrometricData +
  relativeHumidity :: jsnum
  dewPoint :: "jsnum option"

text \<open>The field \<^verbatim>\<open>id\<close> of the source is \<open>example_id\<close> here (\<open>id\<close> is the identity of HOL).\<close>

record TrainingExample =
  example_id :: string
  timestamp :: jsnum
  imageUrl :: string
  correctedDry :: jsnum
  correctedWet :: jsnum

datatype AppState = IDLE | ANALYZING | SUCCESS | ERROR

section \<open>The oracle adapter (services/geminiService.ts)\<close>

text \<open>
  The request is a list of parts.  The texts of the source are Ukrainian prose; each is
  a constructor here, and the text that quotes the accepted values of the exemplar
  carries the two numbers as \<^verbatim>\<open>toFixed(1)\<close> prints them.
\<close>

datatype prompt = Example_intro | Example_values jsnum jsnum | Analyze_new | System_prompt

datatype part = Text_part prompt | Inline_data string string

text \<open>
  \<^verbatim>\<open>s.replace(/^data:image\/(png|jpeg|jpg|webp);base64,/, "")\<close>: the prefix is removed
  when the string starts with it, and the string is kept otherwise.
\<close>

fun strip_prefix :: "string \<Rightarrow> string \<Rightarrow> string option" where
  "strip_prefix [] s = Some s"
| "strip_prefix (p # ps) [] = None"
| "strip_prefix (p # ps) (c # cs) = (if p = c then strip_prefix ps cs else None)"

fun first_stripped :: "string list \<Rightarrow> string \<Rightarrow> string option" where
  "first_stripped [] s = None"
| "first_stripped (p # ps) s =
     (case strip_prefix p s of Some r \<Rightarrow> Some r | None \<Rightarrow> first_stripped ps s)"

definition remove_data_url_prefix :: "string \<Rightarrow> string" where
  "remove_data_url_prefix s =
     (case first_stripped
             [''data:image/png;base64,'', ''data:image/jpeg;base64,'',
              ''data:image/jpg;base64,'', ''data:image/webp;base64,''] s of
        Some r \<Rightarrow> r
      | None \<Rightarrow> s)"

text \<open>
  What the call to the oracle and the decoding of its answer give, in the order of the
  source: the call itself fails with a message (\<open>Rejected\<close>); the response has no text
  (\<open>No_text\<close>: \<^verbatim>\<open>response.text\<close> is undefined or empty); \<^verbatim>\<open>JSON.parse\<close> throws on the
  text (\<open>Unparseable\<close>, with the message of the syntax error); or the text parses to an
  object of the shape the request's response schema requires (\<open>Response\<close>).  The source
  casts the parsed value to \<^verbatim>\<open>PsychrometricData\<close> without a check; a text that parses to
  something of another shape is outside this type.
\<close>

datatype oracle_reply =
    Rejected string
  | No_text
  | Unparseable string
  | Response PsychrometricData

text \<open>
  The user-facing message of the source is Ukrainian; it is rendered in English here.
\<close>

definition msg_not_a_psychrometer :: string where
  "msg_not_a_psychrometer =
     ''No psychrometer found in the image. Please photograph a VIT-1 or VIT-2 device.''"

definition build_parts :: "string \<Rightarrow> TrainingExample list \<Rightarrow> part list" where
  "build_parts base64Image examples =
     (let cleanBase64 = remove_data_url_prefix base64Image
      in (if length examples > 0 then
            (let ex = last examples;
                 exBase64 = remove_data_url_prefix (imageUrl ex)
             in [Text_part Example_intro,
                 Inline_data ''image/jpeg'' exBase64,
                 Text_part (Example_values (toFixed1 (correctedDry ex))
                                           (toFixed1 (correctedWet ex)))])
          else [])
         @ [Text_part Analyze_new,
            Inline_data ''image/jpeg'' cleanBase64,
            Text_part System_prompt])"

text \<open>
  The body of the \<^verbatim>\<open>try\<close>: an error is its message (\<open>Inl\<close>).  When the model answers
  with wet above dry the source only writes a warning to the console and goes on to
  \<^verbatim>\<open>return data\<close>; the console is not part of the model, so that test is no branch.
\<close>

definition analyze_try ::
  "(part list \<Rightarrow> oracle_reply) \<Rightarrow> string \<Rightarrow> TrainingExample list \<Rightarrow> string + PsychrometricData"
where
  "analyze_try generateContent base64Image examples =
     (case generateContent (build_parts base64Image examples) of
        Rejected m \<Rightarrow> Inl m
      | No_text \<Rightarrow> Inl ''No response text from Gemini''
      | Unparseable m \<Rightarrow> Inl m
      | Response d \<Rightarrow>
          if \<not> isPsychrometer d then Inl ''NOT_A_PSYCHROMETER'' else Inr d)"

text \<open>The \<^verbatim>\<open>catch\<close>: the marker message is replaced, any other error is thrown again.\<close>

definition analyzeHygrometer ::
  "(part list \<Rightarrow> oracle_reply) \<Rightarrow> string \<Rightarrow> TrainingExample list \<Rightarrow> string + PsychrometricData"
where
  "analyzeHygrometer generateContent base64Image examples =
     (case analyze_try generateContent base64Image examples of
        Inl m \<Rightarrow> if m = ''NOT_A_PSYCHROMETER'' then Inl msg_not_a_psychrometer else Inl m
      | Inr d \<Rightarrow> Inr d)"

section \<open>The result card (components/ResultCard.tsx)\<close>

record card_state =
  readings :: PsychrometricData
  result :: CalculationResult
  isCorrected :: bool
  hasLearned :: bool
  validationError :: "string option"

text \<open>The values of the \<^verbatim>\<open>useState\<close> calls at mount.\<close>

definition card_init :: "PsychrometricData \<Rightarrow> card_state" where
  "card_init initialData =
     \<lparr> readings = initialData,
       result = \<lparr> dryTemp = dryTemp initialData, wetTemp = wetTemp initialData,
                  isPsychrometer = isPsychrometer initialData,
                  confidence = confidence initialData,
                  relativeHumidity = Fin 0, dewPoint = Some (Fin 0) \<rparr>,
       isCorrected = False, hasLearned = False, validationError = None \<rparr>"

text \<open>The validation message of the source is Ukrainian; it is rendered in English.\<close>

definition validation_message :: string where
  "validation_message = ''Wet-bulb temperature cannot be higher than dry-bulb temperature!''"

text \<open>A string or null in a condition: null and the empty string are falsy.\<close>

definition truthy :: "string option \<Rightarrow> bool" where
  "truthy s = (case s of None \<Rightarrow> False | Some t \<Rightarrow> t \<noteq> [])"

datatype calc_call = Call_calculateHumidity jsnum jsnum | Call_calculateDewPoint jsnum jsnum

text \<open>
  The effect that runs after mount and after every change of \<^verbatim>\<open>readings\<close>.  It returns
  the calls it makes to the calculator, in order, and the state after its updates.
\<close>

definition recalculate :: "PsychrometricData \<Rightarrow> card_state \<Rightarrow> calc_call list \<times> card_state" where
  "recalculate initialData st =
     (let r = readings st
      in if js_gt (wetTemp r) (dryTemp r) then
           ([], st\<lparr> validationError := Some validation_message,
                    result := (result st)\<lparr> relativeHumidity := Fin 0, dewPoint := None \<rparr> \<rparr>)
         else
           (let rh = calculateHumidity (dryTemp r) (wetTemp r);
                dp = calculateDewPoint (dryTemp r) rh;
                hasChanged =
                  (js_gt (Math_abs (js_sub (dryTemp r) (dryTemp initialData))) (Fin 0.01) \<or>
                   js_gt (Math_abs (js_sub (wetTemp r) (wetTemp initialData))) (Fin 0.01))
            in ([Call_calculateHumidity (dryTemp r) (wetTemp r),
                 Call_calculateDewPoint (dryTemp r) rh],
                st\<lparr> validationError := None,
                    result := \<lparr> dryTemp = dryTemp r, wetTemp = wetTemp r,
                                isPsychrometer = isPsychrometer r,
                                confidence = confidence r,
                                relativeHumidity = rh, dewPoint = Some (toFixed1 dp) \<rparr>,
                    isCorrected := hasChanged,
                    hasLearned := (if hasChanged then False else hasLearned st) \<rparr>)))"

definition mount :: "PsychrometricData \<Rightarrow> card_state" where
  "mount initialData = snd (recalculate initialData (card_init initialData))"

text \<open>
  \<^verbatim>\<open>handleChange\<close> is called from the two inputs only, with the field \<^verbatim>\<open>'dryTemp'\<close> or
  \<^verbatim>\<open>'wetTemp'\<close>.  \<open>None\<close> is a return without a call of \<^verbatim>\<open>setReadings\<close>.
\<close>

datatype field = F_dryTemp | F_wetTemp

definition handleChange :: "field \<Rightarrow> string \<Rightarrow> card_state \<Rightarrow> card_state option" where
  "handleChange fld value st =
     (if value = [] \<or> value = ''-'' then None
      else
        let num = parseFloat value
        in if \<not> isNaN num then
             Some (st\<lparr> readings :=
                     (case fld of
                        F_dryTemp \<Rightarrow> (readings st)\<lparr> dryTemp := num \<rparr>
                      | F_wetTemp \<Rightarrow> (readings st)\<lparr> wetTemp := num \<rparr>) \<rparr>)
           else None)"

text \<open>
  An edit event: the handler, then the effect when the handler has set new readings.
  Without a state update nothing is rendered again and no effect runs.
\<close>

definition change_event :: "PsychrometricData \<Rightarrow> field \<Rightarrow> string \<Rightarrow> card_state \<Rightarrow> card_state" where
  "change_event initialData fld value st =
     (case handleChange fld value st of
        None \<Rightarrow> st
      | Some st' \<Rightarrow> snd (recalculate initialData st'))"

text \<open>
  \<^verbatim>\<open>handleLearnClick\<close>: the arguments of its call of \<^verbatim>\<open>onLearn\<close>, when it makes one, and
  the state after it.
\<close>

definition handleLearnClick :: "card_state \<Rightarrow> (jsnum \<times> jsnum) option \<times> card_state" where
  "handleLearnClick st =
     (if truthy (validationError st) then (None, st)
      else (Some (dryTemp (readings st), wetTemp (readings st)), st\<lparr> hasLearned := True \<rparr>))"

text \<open>What the card shows: the humidity or two dashes, the dew point, the learn button.\<close>

datatype humidity_display = Dashes | Percent jsnum

definition shown_humidity :: "card_state \<Rightarrow> humidity_display" where
  "shown_humidity st =
     (if truthy (validationError st) then Dashes else Percent (relativeHumidity (result st)))"

definition shown_dewPoint :: "card_state \<Rightarrow> jsnum option" where
  "shown_dewPoint st =
     (if \<not> truthy (validationError st) \<and> dewPoint (result st) \<noteq> None
      then dewPoint (result st) else None)"

definition learn_button_shown :: "card_state \<Rightarrow> bool" where
  "learn_button_shown st =
     (isCorrected st \<and> \<not> hasLearned st \<and> \<not> truthy (validationError st))"

section \<open>The application (App.tsx)\<close>

text \<open>
  The record kept in \<^verbatim>\<open>localStorage\<close> under the key \<^verbatim>\<open>psychro_training_data\<close>, by what
  \<^verbatim>\<open>getItem\<close> and \<^verbatim>\<open>JSON.parse\<close> make of it: no record (\<^verbatim>\<open>getItem\<close> gives null), the
  empty text, a text on which \<^verbatim>\<open>JSON.parse\<close> throws, or a text that parses to a JSON
  value.
\<close>

datatype js =
    JNull
  | JBool bool
  | JNumber jsnum
  | JString string
  | JArray "js list"
  | JObject "(string \<times> js) list"

datatype persisted = Absent | Empty_text | Corrupt_text string | Json_text js

text \<open>
  A JSON value read as a \<^verbatim>\<open>TrainingExample\<close>: an object whose five fields have the
  declared types.
\<close>

definition as_TrainingExample :: "js \<Rightarrow> TrainingExample option" where
  "as_TrainingExample v =
     (case v of
        JObject fs \<Rightarrow>
          (case (map_of fs ''id'', map_of fs ''timestamp'', map_of fs ''imageUrl'',
                 map_of fs ''correctedDry'', map_of fs ''correctedWet'') of
             (Some (JString i), Some (JNumber t), Some (JString u),
              Some (JNumber d), Some (JNumber w)) \<Rightarrow>
               Some \<lparr> example_id = i, timestamp = t, imageUrl = u,
                      correctedDry = d, correctedWet = w \<rparr>
           | _ \<Rightarrow> None)
      | _ \<Rightarrow> None)"

definition as_TrainingExamples :: "js \<Rightarrow> TrainingExample list option" where
  "as_TrainingExamples v =
     (case v of JArray vs \<Rightarrow> those (map as_TrainingExample vs) | _ \<Rightarrow> None)"

text \<open>
  What \<^verbatim>\<open>JSON.parse\<close> reads back from \<^verbatim>\<open>JSON.stringify\<close> of a list of exemplars;
  \<^verbatim>\<open>JSON.stringify\<close> writes NaN and the infinities as \<^verbatim>\<open>null\<close>.
\<close>

definition json_of_number :: "jsnum \<Rightarrow> js" where
  "json_of_number n = (case n of Fin r \<Rightarrow> JNumber (Fin r) | _ \<Rightarrow> JNull)"

definition json_of_TrainingExample :: "TrainingExample \<Rightarrow> js" where
  "json_of_TrainingExample ex =
     JObject [(''id'', JString (example_id ex)),
              (''timestamp'', json_of_number (timestamp ex)),
              (''imageUrl'', JString (imageUrl ex)),
              (''correctedDry'', json_of_number (correctedDry ex)),
              (''correctedWet'', json_of_number (correctedWet ex))]"

record app_state =
  appState :: AppState
  image_st :: "string option"
  data :: "PsychrometricData option"
  errorMsg :: "string option"
  trainingExamples :: "TrainingExample list"
  localStorage :: persisted

definition initial_app :: "persisted \<Rightarrow> app_state" where
  "initial_app p =
     \<lparr> appState = IDLE, image_st = None, data = None, errorMsg = None,
       trainingExamples = [], localStorage = p \<rparr>"

text \<open>
  The effect that loads the exemplars at mount.  The parsed value goes into the state
  as it is.  When it is a list of exemplars the state is \<open>Inr\<close>; when it is not, the
  state variable \<^verbatim>\<open>trainingExamples\<close> holds a value outside its declared type, and the
  outcome is \<open>Inl\<close> with that value.  A syntax error is caught and written to the console.
\<close>

datatype ill_typed = Not_an_exemplar_list js

definition load_effect :: "app_state \<Rightarrow> ill_typed + app_state" where
  "load_effect st =
     (case localStorage st of
        Absent \<Rightarrow> Inr st
      | Empty_text \<Rightarrow> Inr st
      | Corrupt_text m \<Rightarrow> Inr st
      | Json_text v \<Rightarrow>
          (case as_TrainingExamples v of
             Some xs \<Rightarrow> Inr (st\<lparr> trainingExamples := xs \<rparr>)
           | None \<Rightarrow> Inl (Not_an_exemplar_list v)))"

text \<open>The fallback message of the source is Ukrainian; it is rendered in English.\<close>

definition msg_default :: string where
  "msg_default =
     ''Could not recognise the readings. Make sure the photo is sharp and the scale is visible.''"

text \<open>
  \<^verbatim>\<open>handleImageSelected\<close>, from the call to the state after the awaited adapter has
  answered.  While it waits the application shows no control, so no other handler runs
  in between.
\<close>

definition handleImageSelected ::
  "(part list \<Rightarrow> oracle_reply) \<Rightarrow> string \<Rightarrow> app_state \<Rightarrow> app_state"
where
  "handleImageSelected generateContent base64 st =
     (let st1 = st\<lparr> image_st := Some base64, appState := ANALYZING, errorMsg := None \<rparr>
      in case analyzeHygrometer generateContent base64 (trainingExamples st) of
           Inr res \<Rightarrow> st1\<lparr> data := Some res, appState := SUCCESS \<rparr>
         | Inl m \<Rightarrow> st1\<lparr> errorMsg := Some (if m \<noteq> [] then m else msg_default),
                          appState := ERROR \<rparr>)"

definition handleReset :: "app_state \<Rightarrow> app_state" where
  "handleReset st = st\<lparr> appState := IDLE, image_st := None, data := None, errorMsg := None \<rparr>"

text \<open>\<^verbatim>\<open>Date.now().toString()\<close>: the decimal digits of the time in milliseconds.\<close>

fun string_of_nat :: "nat \<Rightarrow> string" where
  "string_of_nat n =
     (if n < 10 then [char_of (48 + n)]
      else string_of_nat (n div 10) @ [char_of (48 + n mod 10)])"

declare string_of_nat.simps [simp del]

text \<open>\<^verbatim>\<open>xs.slice(-3)\<close>: the last three elements, or all of them when there are fewer.\<close>

definition slice_last3 :: "'a list \<Rightarrow> 'a list" where
  "slice_last3 xs = drop (length xs - 3) xs"

text \<open>
  The new exemplar.  The source calls \<^verbatim>\<open>Date.now()\<close> twice, for the id and for the
  time stamp; \<open>now1\<close> and \<open>now2\<close> are the two values.
\<close>

definition new_example :: "nat \<Rightarrow> nat \<Rightarrow> string \<Rightarrow> jsnum \<Rightarrow> jsnum \<Rightarrow> TrainingExample" where
  "new_example now1 now2 img cDry cWet =
     \<lparr> example_id = string_of_nat now1, timestamp = Fin (real now2), imageUrl = img,
       correctedDry = cDry, correctedWet = cWet \<rparr>"

text \<open>
  \<^verbatim>\<open>handleLearn\<close>, with the two values of \<^verbatim>\<open>Date.now()\<close> as arguments.  The write to
  \<^verbatim>\<open>localStorage\<close> replaces the whole record; it is taken to succeed.
\<close>

definition handleLearn :: "nat \<Rightarrow> nat \<Rightarrow> jsnum \<Rightarrow> jsnum \<Rightarrow> app_state \<Rightarrow> app_state" where
  "handleLearn now1 now2 cDry cWet st =
     (case image_st st of
        None \<Rightarrow> st
      | Some img \<Rightarrow>
          if img = [] then st
          else
            let newExample = new_example now1 now2 img cDry cWet;
                updatedExamples = slice_last3 (trainingExamples st @ [newExample])
            in st\<lparr> trainingExamples := updatedExamples,
                   localStorage := Json_text (JArray (map json_of_TrainingExample updatedExamples)) \<rparr>)"

text \<open>A sequence of commits, each with its two times and its two corrected values.\<close>

definition learn_all :: "(nat \<times> nat \<times> jsnum \<times> jsnum) list \<Rightarrow> app_state \<Rightarrow> app_state" where
  "learn_all cs st =
     foldl (\<lambda>s (now1, now2, cDry, cWet). handleLearn now1 now2 cDry cWet s) st cs"

section \<open>The session: the application with its result card\<close>

text \<open>
  The card is rendered, with \<^verbatim>\<open>data\<close> as its \<^verbatim>\<open>initialData\<close>, while the application is in
  \<^verbatim>\<open>SUCCESS\<close> with data and an image; it is mounted anew after every analysis.  The
  uploader is rendered in \<^verbatim>\<open>IDLE\<close> only; the reset button is in the error view and in
  the card.  An event whose control is not rendered changes nothing.  A click on the
  learn button is given to its handler whenever the card is mounted, whether the button
  is shown or not.
\<close>

datatype event =
    Image_selected string "part list \<Rightarrow> oracle_reply"
  | Reset_clicked
  | Field_edited field string
  | Learn_clicked nat nat

type_synonym session = "app_state \<times> card_state option"

definition rendered_card :: "app_state \<Rightarrow> card_state option" where
  "rendered_card a =
     (if appState a = SUCCESS \<and> truthy (image_st a) then map_option mount (data a) else None)"

fun step :: "event \<Rightarrow> session \<Rightarrow> session" where
  "step (Image_selected base64 generateContent) (a, c) =
     (if appState a = IDLE then
        (let a' = handleImageSelected generateContent base64 a in (a', rendered_card a'))
      else (a, c))"
| "step Reset_clicked (a, c) =
     (if appState a = ERROR \<or> c \<noteq> None then (handleReset a, None) else (a, c))"
| "step (Field_edited fld value) (a, c) =
     (case (c, data a) of
        (Some cs, Some i) \<Rightarrow> (a, Some (change_event i fld value cs))
      | _ \<Rightarrow> (a, c))"
| "step (Learn_clicked now1 now2) (a, c) =
     (case c of
        None \<Rightarrow> (a, c)
      | Some cs \<Rightarrow>
          (case handleLearnClick cs of
             (None, cs') \<Rightarrow> (a, Some cs')
           | (Some (d, w), cs') \<Rightarrow> (handleLearn now1 now2 d w a, Some cs')))"

inductive reachable :: "session \<Rightarrow> bool" where
  start: "load_effect (initial_app p) = Inr a \<Longrightarrow> reachable (a, None)"
| next_event: "reachable s \<Longrightarrow> reachable (step e s)"

text \<open>
  A state of the session is taken after the effects of an event have run: the frame
  that is painted between a render and its effect is not a state of its own.  In such
  a state the validation error of a mounted card is set exactly when the wet reading
  is above the dry one.
\<close>

definition card_ok :: "card_state \<Rightarrow> bool" where
  "card_ok c =
     (validationError c =
        (if js_gt (wetTemp (readings c)) (dryTemp (readings c))
         then Some validation_message else None))"

subsection \<open>Sample readings\<close>

definition reading_20_15 :: PsychrometricData where
  "reading_20_15 =
     \<lparr> dryTemp = Fin 20, wetTemp = Fin 15, isPsychrometer = True, confidence = None \<rparr>"

definition reading_20_25 :: PsychrometricData where
  "reading_20_25 =
     \<lparr> dryTemp = Fin 20, wetTemp = Fin 25, isPsychrometer = True, confidence = None \<rparr>"

definition reading_20_0 :: PsychrometricData where
  "reading_20_0 =
     \<lparr> dryTemp = Fin 20, wetTemp = Fin 0, isPsychrometer = True, confidence = None \<rparr>"

definition reading_not_psychrometer :: PsychrometricData where
  "reading_not_psychrometer =
     \<lparr> dryTemp = Fin 0, wetTemp = Fin 0, isPsychrometer = False, confidence = None \<rparr>"

section \<open>Facts about the calculator\<close>

lemma gsvp_fin:
  "t \<noteq> - 243.5 \<Longrightarrow>
   getSaturationVaporPressure (Fin t) = Fin (6.112 * exp (17.67 * t / (t + 243.5)))"
  by (simp add: getSaturationVaporPressure_def)

text \<open>
  At \<open>-243.5\<close> the exponent of the Magnus formula is a negative number over \<^verbatim>\<open>+0\<close>, that
  is \<^verbatim>\<open>-Infinity\<close>, and the pressure is \<^verbatim>\<open>6.112 * 0\<close>.
\<close>

lemma gsvp_pole: "getSaturationVaporPressure (Fin (- 243.5)) = Fin 0"
  by (simp add: getSaturationVaporPressure_def signed_inf_def)

lemma pressure_20:
  "getSaturationVaporPressure (Fin 20) = Fin (6.112 * exp (17.67 * 20 / (20 + 243.5)))"
  by (rule gsvp_fin) simp

lemma pressure_15:
  "getSaturationVaporPressure (Fin 15) = Fin (6.112 * exp (17.67 * 15 / (15 + 243.5)))"
  by (rule gsvp_fin) simp

lemma clamp_fin: "Math_max (Fin 0) (Math_min (Fin 100) (Fin x)) = Fin (max 0 (min 100 x))"
  by (auto simp: Math_max_def Math_min_def)

lemma clamp_cases:
  "Math_max (Fin 0) (Math_min (Fin 100) x) = NaN \<or>
   (\<exists>r. Math_max (Fin 0) (Math_min (Fin 100) x) = Fin r \<and> 0 \<le> r \<and> r \<le> 100)"
  by (cases x) (auto simp: Math_max_def Math_min_def)

lemma round1_range: "0 \<le> x \<Longrightarrow> x \<le> 100 \<Longrightarrow> 0 \<le> round1 x \<and> round1 x \<le> 100"
  unfolding round1_def by (auto simp: field_simps)

lemma toFixed1_range:
  "0 \<le> r \<Longrightarrow> r \<le> 100 \<Longrightarrow> \<exists>q. toFixed1 (Fin r) = Fin q \<and> 0 \<le> q \<and> q \<le> 100"
  using round1_range[of r] by auto

lemma in_range_Fin:
  "0 \<le> q \<Longrightarrow> q \<le> 100 \<Longrightarrow> js_le (Fin 0) (Fin q) \<and> js_le (Fin q) (Fin 100)"
  by (simp add: js_le_def)

lemma clamp_neg:
  "x < 0 \<Longrightarrow> toFixed1 (Math_max (Fin 0) (Math_min (Fin 100) (Fin x))) = Fin 0"
  by (simp add: clamp_fin round1_def)

lemma humidity_nan_or_range:
  "isNaN (calculateHumidity d w) \<or>
   (js_le (Fin 0) (calculateHumidity d w) \<and> js_le (calculateHumidity d w) (Fin 100))"
proof -
  define rh where
    "rh = js_mul (js_div (js_sub (getSaturationVaporPressure w)
                    (js_mul (js_mul (Fin 0.0007947) (Fin 1013.25)) (js_sub d w)))
                  (getSaturationVaporPressure d)) (Fin 100)"
  have eq: "calculateHumidity d w = toFixed1 (Math_max (Fin 0) (Math_min (Fin 100) rh))"
    by (simp add: calculateHumidity_def Let_def rh_def)
  from clamp_cases[of rh] show ?thesis
  proof
    assume "Math_max (Fin 0) (Math_min (Fin 100) rh) = NaN"
    then show ?thesis by (simp add: eq)
  next
    assume "\<exists>r. Math_max (Fin 0) (Math_min (Fin 100) rh) = Fin r \<and> 0 \<le> r \<and> r \<le> 100"
    then obtain r where r: "Math_max (Fin 0) (Math_min (Fin 100) rh) = Fin r" "0 \<le> r" "r \<le> 100"
      by blast
    from toFixed1_range[OF r(2,3)] obtain q where "toFixed1 (Fin r) = Fin q" "0 \<le> q" "q \<le> 100"
      by blast
    then show ?thesis using in_range_Fin[of q] by (simp add: eq r(1))
  qed
qed

lemma humidity_finite_pressures:
  assumes "getSaturationVaporPressure (Fin x) = Fin sd" "sd \<noteq> 0"
          "getSaturationVaporPressure (Fin y) = Fin sw"
  shows "calculateHumidity (Fin x) (Fin y) =
         toFixed1 (Fin (max 0 (min 100
           ((sw + - (0.0007947 * 1013.25 * (x + - y))) / sd * 100))))"
  unfolding calculateHumidity_def Let_def assms js_sub_def
  by (simp add: assms clamp_fin)

lemma humidity_at_pole: "calculateHumidity (Fin (- 243.5)) (Fin (- 243.5)) = NaN"
  unfolding calculateHumidity_def Let_def gsvp_pole
  by (simp add: js_sub_def signed_inf_def Math_max_def Math_min_def)

text \<open>
  Dry 20, wet 0: the vapour pressure \<open>6.112 - 0.0007947 * 1013.25 * 20\<close> is negative, so
  the clamp gives 0; the dew point of that humidity is \<^verbatim>\<open>-Infinity / Infinity\<close>.
\<close>

lemma humidity_20_0: "calculateHumidity (Fin 20) (Fin 0) = Fin 0"
proof -
  have w: "getSaturationVaporPressure (Fin 0) = Fin 6.112"
    by (simp add: getSaturationVaporPressure_def)
  have neg: "(6.112 + - (0.0007947 * 1013.25 * (20 + - 0))) /
             (6.112 * exp (17.67 * 20 / (20 + 243.5))) * 100 < (0::real)"
    by (simp add: field_simps)
  have "calculateHumidity (Fin 20) (Fin 0) =
        toFixed1 (Math_max (Fin 0) (Math_min (Fin 100)
          (Fin ((6.112 + - (0.0007947 * 1013.25 * (20 + - 0))) /
                (6.112 * exp (17.67 * 20 / (20 + 243.5))) * 100))))"
    unfolding calculateHumidity_def Let_def pressure_20 w js_sub_def by simp
  also have "\<dots> = Fin 0" using neg by (rule clamp_neg)
  finally show ?thesis .
qed

lemma dew_point_20_0: "calculateDewPoint (Fin 20) (Fin 0) = NaN"
  by (simp add: calculateDewPoint_def js_sub_def signed_inf_def)

section \<open>Facts about the exemplar buffer\<close>

lemma length_slice_last3: "length (slice_last3 xs) \<le> 3"
  by (simp add: slice_last3_def)

lemma handleLearn_bounded:
  "length (trainingExamples st) \<le> 3 \<Longrightarrow>
   length (trainingExamples (handleLearn now1 now2 d w st)) \<le> 3"
  by (simp add: handleLearn_def Let_def length_slice_last3 split: option.splits)

lemma learn_all_bounded:
  "length (trainingExamples st) \<le> 3 \<Longrightarrow> length (trainingExamples (learn_all cs st)) \<le> 3"
proof (induction cs arbitrary: st)
  case Nil
  then show ?case by (simp add: learn_all_def)
next
  case (Cons c cs)
  obtain now1 now2 d w where c: "c = (now1, now2, d, w)" by (cases c) auto
  have "learn_all (c # cs) st = learn_all cs (handleLearn now1 now2 d w st)"
    by (simp add: learn_all_def c)
  with Cons.IH[OF handleLearn_bounded[OF Cons.prems]] show ?case by simp
qed

lemma handleLearn_image:
  "image_st st = Some img \<Longrightarrow> img \<noteq> [] \<Longrightarrow>
   handleLearn now1 now2 d w st =
     st\<lparr> trainingExamples :=
           slice_last3 (trainingExamples st @ [new_example now1 now2 img d w]),
         localStorage := Json_text (JArray (map json_of_TrainingExample
             (slice_last3 (trainingExamples st @ [new_example now1 now2 img d w])))) \<rparr>"
  by (simp add: handleLearn_def Let_def)

lemma learn_four:
  assumes "image_st st = Some img" "img \<noteq> []" "trainingExamples st = []"
  shows "trainingExamples
           (learn_all [(i1, n1, d1, w1), (i2, n2, d2, w2), (i3, n3, d3, w3), (i4, n4, d4, w4)] st) =
         [new_example i2 n2 img d2 w2, new_example i3 n3 img d3 w3, new_example i4 n4 img d4 w4]"
  using assms by (simp add: learn_all_def handleLearn_image slice_last3_def)

section \<open>The invariant of the session\<close>

lemma recalculate_ok: "card_ok (snd (recalculate i st))"
  by (simp add: recalculate_def card_ok_def Let_def)

lemma mount_ok: "card_ok (mount i)"
  by (simp add: mount_def recalculate_ok)

lemma change_event_ok: "card_ok c \<Longrightarrow> card_ok (change_event i fld v c)"
  by (simp add: change_event_def recalculate_ok split: option.splits)

lemma handleLearnClick_ok: "card_ok c \<Longrightarrow> card_ok (snd (handleLearnClick c))"
  by (simp add: handleLearnClick_def card_ok_def)

lemma step_ok:
  assumes "\<forall>cs. c = Some cs \<longrightarrow> card_ok cs" and "step e (a, c) = (a', c')" and "c' = Some cs'"
  shows "card_ok cs'"
proof (cases e)
  case (Image_selected b g)
  with assms show ?thesis
    by (auto simp: rendered_card_def Let_def mount_ok split: if_splits)
next
  case Reset_clicked
  with assms show ?thesis by (auto split: if_splits)
next
  case (Field_edited fld v)
  with assms show ?thesis
    by (auto simp: change_event_ok split: option.splits)
next
  case (Learn_clicked now1 now2)
  with assms show ?thesis
    using handleLearnClick_ok
    by (auto split: option.splits prod.splits) (metis snd_conv)+
qed

lemma reachable_ok: "reachable s \<Longrightarrow> \<forall>cs. snd s = Some cs \<longrightarrow> card_ok cs"
proof (induction rule: reachable.induct)
  case (start p a)
  then show ?case by simp
next
  case (next_event s e)
  obtain a c where s: "s = (a, c)" by (cases s)
  obtain a' c' where s': "step e (a, c) = (a', c')" by (cases "step e (a, c)")
  show ?case using step_ok[OF _ s'] next_event.IH by (auto simp: s s')
qed

section \<open>The claims\<close>

text \<open>
  C1.  The claim: for every pair of inputs, also with wet above dry,
  \<^verbatim>\<open>calculateHumidity\<close> returns a number between 0 and 100 and never raises.  The
  function never raises (it is total, and \<^verbatim>\<open>toFixed(1)\<close> cannot throw), but the bound
  fails where the quotient is \<^verbatim>\<open>0 / 0\<close>: the clamp passes NaN on.  What holds: for every
  pair of inputs the result is NaN or lies between 0 and 100; and it lies between 0 and
  100 whenever both inputs are finite, the saturation pressure at the dry temperature
  is finite and not zero and the one at the wet temperature is finite.  In this model
  that is every finite pair whose dry temperature is not \<open>-243.5\<close>, which covers the
  range from \<open>-40\<close> to \<open>60\<close>.
\<close>

theorem calculateHumidity_range:
  "(isNaN (calculateHumidity d w) \<or>
      (js_le (Fin 0) (calculateHumidity d w) \<and> js_le (calculateHumidity d w) (Fin 100))) \<and>
   (getSaturationVaporPressure (Fin x) = Fin sd \<and> sd \<noteq> 0 \<and>
    getSaturationVaporPressure (Fin y) = Fin sw \<longrightarrow>
      js_le (Fin 0) (calculateHumidity (Fin x) (Fin y)) \<and>
      js_le (calculateHumidity (Fin x) (Fin y)) (Fin 100))"
proof (intro conjI impI)
  show "isNaN (calculateHumidity d w) \<or>
      (js_le (Fin 0) (calculateHumidity d w) \<and> js_le (calculateHumidity d w) (Fin 100))"
    by (rule humidity_nan_or_range)
next
  assume a: "getSaturationVaporPressure (Fin x) = Fin sd \<and> sd \<noteq> 0 \<and>
    getSaturationVaporPressure (Fin y) = Fin sw"
  let ?v = "max 0 (min 100 ((sw + - (0.0007947 * 1013.25 * (x + - y))) / sd * 100))"
  have eq: "calculateHumidity (Fin x) (Fin y) = toFixed1 (Fin ?v)"
    using a by (intro humidity_finite_pressures) auto
  have "0 \<le> ?v" "?v \<le> 100" by auto
  from toFixed1_range[OF this] obtain q where "toFixed1 (Fin ?v) = Fin q" "0 \<le> q" "q \<le> 100"
    by blast
  then have "js_le (Fin 0) (calculateHumidity (Fin x) (Fin y)) \<and>
      js_le (calculateHumidity (Fin x) (Fin y)) (Fin 100)"
    using in_range_Fin[of q] by (simp only: eq)
  then show "js_le (Fin 0) (calculateHumidity (Fin x) (Fin y))"
    and "js_le (calculateHumidity (Fin x) (Fin y)) (Fin 100)" by simp_all
qed

theorem calculateHumidity_range_witness:
  "getSaturationVaporPressure (Fin 20) = Fin (6.112 * exp (17.67 * 20 / (20 + 243.5))) \<and>
   6.112 * exp (17.67 * 20 / (20 + 243.5)) \<noteq> (0::real) \<and>
   getSaturationVaporPressure (Fin 15) = Fin (6.112 * exp (17.67 * 15 / (15 + 243.5))) \<and>
   js_le (Fin 0) (calculateHumidity (Fin 20) (Fin 15)) \<and>
   js_le (calculateHumidity (Fin 20) (Fin 15)) (Fin 100)"
  using calculateHumidity_range [of "Fin 20" "Fin 15" 20 "6.112 * exp (17.67 * 20 / (20 + 243.5))"
      15 "6.112 * exp (17.67 * 15 / (15 + 243.5))"] pressure_20 pressure_15
  by simp

text \<open>Dry and wet both \<open>-243.5\<close>: both pressures are 0, the result is NaN.\<close>

theorem calculateHumidity_range_counterexample:
  "\<not> (js_le (Fin 0) (calculateHumidity (Fin (- 243.5)) (Fin (- 243.5))) \<and>
      js_le (calculateHumidity (Fin (- 243.5)) (Fin (- 243.5))) (Fin 100))"
  unfolding humidity_at_pole by (simp add: js_le_def)

text \<open>
  C2.  Any sequence of commits through \<^verbatim>\<open>handleLearn\<close>, from a state whose buffer holds
  at most three exemplars, leaves at most three; and four commits in a row, on an empty
  buffer and with an image selected, leave exactly the second, third and fourth
  exemplar, in that order.
\<close>

theorem exemplar_buffer_bounded:
  "(length (trainingExamples st) \<le> 3 \<longrightarrow> length (trainingExamples (learn_all cs st)) \<le> 3) \<and>
   (image_st st = Some img \<and> img \<noteq> [] \<and> trainingExamples st = [] \<longrightarrow>
      trainingExamples
        (learn_all [(i1, n1, d1, w1), (i2, n2, d2, w2), (i3, n3, d3, w3), (i4, n4, d4, w4)] st) =
        [new_example i2 n2 img d2 w2, new_example i3 n3 img d3 w3,
         new_example i4 n4 img d4 w4])"
  using learn_all_bounded[of st cs] learn_four[of st img] by blast

theorem exemplar_buffer_bounded_witness:
  "length (trainingExamples ((initial_app Absent)\<lparr> image_st := Some ''photo'' \<rparr>)) \<le> 3 \<and>
   length (trainingExamples
     (learn_all [(1, 1, Fin 20, Fin 15), (2, 2, Fin 21, Fin 16), (3, 4, Fin 22, Fin 17),
                 (5, 5, Fin 23, Fin 18), (6, 6, Fin 24, Fin 19)]
        ((initial_app Absent)\<lparr> image_st := Some ''photo'' \<rparr>))) \<le> 3 \<and>
   image_st ((initial_app Absent)\<lparr> image_st := Some ''photo'' \<rparr>) = Some ''photo'' \<and>
   ''photo'' \<noteq> [] \<and>
   trainingExamples ((initial_app Absent)\<lparr> image_st := Some ''photo'' \<rparr>) = [] \<and>
   trainingExamples
     (learn_all [(1, 1, Fin 20, Fin 15), (2, 2, Fin 21, Fin 16), (3, 4, Fin 22, Fin 17),
                 (5, 5, Fin 23, Fin 18)]
        ((initial_app Absent)\<lparr> image_st := Some ''photo'' \<rparr>)) =
     [new_example 2 2 ''photo'' (Fin 21) (Fin 16), new_example 3 4 ''photo'' (Fin 22) (Fin 17),
      new_example 5 5 ''photo'' (Fin 23) (Fin 18)]"
  using exemplar_buffer_bounded
    [of "(initial_app Absent)\<lparr> image_st := Some ''photo'' \<rparr>"
        "[(1, 1, Fin 20, Fin 15), (2, 2, Fin 21, Fin 16), (3, 4, Fin 22, Fin 17),
          (5, 5, Fin 23, Fin 18), (6, 6, Fin 24, Fin 19)]"
        "''photo''" 1 1 "Fin 20" "Fin 15" 2 2 "Fin 21" "Fin 16" 3 4 "Fin 22" "Fin 17"
        5 5 "Fin 23" "Fin 18"]
  by (simp add: initial_app_def)

text \<open>
  C3.  In every reachable state of the session whose mounted card has the wet reading
  above the dry one: the validation error is set; the card shows two dashes for the
  humidity and no dew point; the effect on these readings makes no call to the
  calculator; the learn handler makes no call of \<^verbatim>\<open>onLearn\<close>; and a click on the learn
  button leaves the whole session, the exemplars among it, as it was.
\<close>

theorem inconsistent_readings_block_session:
  assumes "reachable (a, Some c)"
      and "js_gt (wetTemp (readings c)) (dryTemp (readings c))"
  shows "validationError c = Some validation_message \<and>
         shown_humidity c = Dashes \<and>
         shown_dewPoint c = None \<and>
         fst (recalculate i c) = [] \<and>
         fst (handleLearnClick c) = None \<and>
         step (Learn_clicked now1 now2) (a, Some c) = (a, Some c)"
proof -
  have "card_ok c" using reachable_ok[OF assms(1)] by simp
  with assms(2) have v: "validationError c = Some validation_message"
    by (simp add: card_ok_def)
  have t: "truthy (validationError c)"
    by (simp add: v truthy_def validation_message_def)
  show ?thesis using t v assms(2)
    by (simp add: shown_humidity_def shown_dewPoint_def handleLearnClick_def
        recalculate_def Let_def)
qed

text \<open>
  The session after a photo whose reading is dry 20, wet 25: the card is mounted with
  that reading.
\<close>

lemma session_20_25:
  "step (Image_selected ''photo'' (\<lambda>ps. Response reading_20_25)) (initial_app Absent, None) =
     (handleImageSelected (\<lambda>ps. Response reading_20_25) ''photo'' (initial_app Absent),
      Some (mount reading_20_25))"
  by (simp add: initial_app_def handleImageSelected_def analyzeHygrometer_def analyze_try_def
      rendered_card_def truthy_def reading_20_25_def Let_def)

lemma reachable_20_25:
  "reachable (handleImageSelected (\<lambda>ps. Response reading_20_25) ''photo'' (initial_app Absent),
              Some (mount reading_20_25))"
proof -
  have "load_effect (initial_app Absent) = Inr (initial_app Absent)"
    by (simp add: load_effect_def initial_app_def)
  then have "reachable (initial_app Absent, None)" by (rule reachable.start)
  then have "reachable (step (Image_selected ''photo'' (\<lambda>ps. Response reading_20_25))
                          (initial_app Absent, None))"
    by (rule reachable.next_event)
  then show ?thesis by (simp only: session_20_25)
qed

lemma mount_20_25_readings: "readings (mount reading_20_25) = reading_20_25"
  by (simp add: mount_def recalculate_def card_init_def Let_def)

theorem inconsistent_readings_block_session_witness:
  "reachable (handleImageSelected (\<lambda>ps. Response reading_20_25) ''photo'' (initial_app Absent),
              Some (mount reading_20_25)) \<and>
   js_gt (wetTemp (readings (mount reading_20_25))) (dryTemp (readings (mount reading_20_25))) \<and>
   validationError (mount reading_20_25) = Some validation_message \<and>
   shown_humidity (mount reading_20_25) = Dashes \<and>
   shown_dewPoint (mount reading_20_25) = None \<and>
   fst (recalculate reading_20_25 (mount reading_20_25)) = [] \<and>
   fst (handleLearnClick (mount reading_20_25)) = None \<and>
   step (Learn_clicked 7 8)
     (handleImageSelected (\<lambda>ps. Response reading_20_25) ''photo'' (initial_app Absent),
      Some (mount reading_20_25)) =
     (handleImageSelected (\<lambda>ps. Response reading_20_25) ''photo'' (initial_app Absent),
      Some (mount reading_20_25))"
proof -
  have g: "js_gt (wetTemp (readings (mount reading_20_25)))
                 (dryTemp (readings (mount reading_20_25)))"
    unfolding mount_20_25_readings by (simp add: reading_20_25_def)
  from inconsistent_readings_block_session [OF reachable_20_25 g, of reading_20_25 7 8]
    reachable_20_25 g
  show ?thesis by blast
qed

text \<open>
  C4.  When the oracle's response has \<^verbatim>\<open>isPsychrometer\<close> false, the adapter fails with
  the message that no psychrometer was found, and \<^verbatim>\<open>handleImageSelected\<close> ends in the
  state \<^verbatim>\<open>ERROR\<close> with that message and without new data; from \<^verbatim>\<open>IDLE\<close> the session
  goes to that state with no card mounted.
\<close>

theorem not_a_psychrometer_fails:
  assumes "generateContent (build_parts base64 (trainingExamples a)) = Response d"
      and "\<not> isPsychrometer d"
  shows "analyzeHygrometer generateContent base64 (trainingExamples a) =
           Inl msg_not_a_psychrometer \<and>
         appState (handleImageSelected generateContent base64 a) = ERROR \<and>
         errorMsg (handleImageSelected generateContent base64 a) = Some msg_not_a_psychrometer \<and>
         data (handleImageSelected generateContent base64 a) = data a \<and>
         (appState a = IDLE \<longrightarrow>
            step (Image_selected base64 generateContent) (a, c) =
              (handleImageSelected generateContent base64 a, None))"
proof -
  have an: "analyzeHygrometer generateContent base64 (trainingExamples a) =
            Inl msg_not_a_psychrometer"
    using assms by (simp add: analyzeHygrometer_def analyze_try_def)
  have ne: "msg_not_a_psychrometer \<noteq> []" by (simp add: msg_not_a_psychrometer_def)
  have h: "handleImageSelected generateContent base64 a =
     a\<lparr> image_st := Some base64, appState := ANALYZING, errorMsg := None,
        errorMsg := Some msg_not_a_psychrometer, appState := ERROR \<rparr>"
    using ne by (simp add: handleImageSelected_def an Let_def)
  show ?thesis
    by (simp add: an h rendered_card_def)
qed

theorem not_a_psychrometer_fails_witness:
  "(\<lambda>ps. Response reading_not_psychrometer)
      (build_parts ''photo'' (trainingExamples (initial_app Absent))) =
     Response reading_not_psychrometer \<and>
   \<not> isPsychrometer reading_not_psychrometer \<and>
   appState (initial_app Absent) = IDLE \<and>
   analyzeHygrometer (\<lambda>ps. Response reading_not_psychrometer) ''photo''
      (trainingExamples (initial_app Absent)) = Inl msg_not_a_psychrometer \<and>
   appState (handleImageSelected (\<lambda>ps. Response reading_not_psychrometer) ''photo''
      (initial_app Absent)) = ERROR \<and>
   step (Image_selected ''photo'' (\<lambda>ps. Response reading_not_psychrometer))
      (initial_app Absent, None) =
     (handleImageSelected (\<lambda>ps. Response reading_not_psychrometer) ''photo''
        (initial_app Absent), None)"
proof -
  have n: "\<not> isPsychrometer reading_not_psychrometer"
    by (simp add: reading_not_psychrometer_def)
  have i: "appState (initial_app Absent) = IDLE" by (simp add: initial_app_def)
  from not_a_psychrometer_fails
    [of "\<lambda>ps. Response reading_not_psychrometer" "''photo''" "initial_app Absent"
        reading_not_psychrometer None, OF refl n] n i
  show ?thesis by simp
qed

text \<open>
  C5.  The claim: every call of \<^verbatim>\<open>calculateDewPoint\<close> by the session passes a humidity
  above 0.  The effect has no such test: it passes whatever \<^verbatim>\<open>calculateHumidity\<close> has
  returned, and the clamp returns 0 for dry air.  What holds: a call of
  \<^verbatim>\<open>calculateDewPoint\<close> is made only when the wet reading is not above the dry one, its
  arguments are the dry reading and the humidity just computed from the two readings,
  and that humidity is NaN or lies between 0 and 100.
\<close>

theorem dew_point_call_arguments:
  assumes "Call_calculateDewPoint t rh \<in> set (fst (recalculate i st))"
  shows "\<not> js_gt (wetTemp (readings st)) (dryTemp (readings st)) \<and>
         t = dryTemp (readings st) \<and>
         rh = calculateHumidity (dryTemp (readings st)) (wetTemp (readings st)) \<and>
         (isNaN rh \<or> (js_le (Fin 0) rh \<and> js_le rh (Fin 100)))"
proof -
  have ng: "\<not> js_gt (wetTemp (readings st)) (dryTemp (readings st))"
    using assms by (auto simp: recalculate_def Let_def split: if_splits)
  then have "fst (recalculate i st) =
      [Call_calculateHumidity (dryTemp (readings st)) (wetTemp (readings st)),
       Call_calculateDewPoint (dryTemp (readings st))
         (calculateHumidity (dryTemp (readings st)) (wetTemp (readings st)))]"
    by (simp add: recalculate_def Let_def)
  with assms have "t = dryTemp (readings st)"
    "rh = calculateHumidity (dryTemp (readings st)) (wetTemp (readings st))" by auto
  with ng humidity_nan_or_range[of "dryTemp (readings st)" "wetTemp (readings st)"]
  show ?thesis by simp
qed

theorem dew_point_call_arguments_witness:
  "Call_calculateDewPoint (Fin 20) (calculateHumidity (Fin 20) (Fin 15))
     \<in> set (fst (recalculate reading_20_15 (card_init reading_20_15))) \<and>
   \<not> js_gt (wetTemp (readings (card_init reading_20_15)))
            (dryTemp (readings (card_init reading_20_15))) \<and>
   (isNaN (calculateHumidity (Fin 20) (Fin 15)) \<or>
      (js_le (Fin 0) (calculateHumidity (Fin 20) (Fin 15)) \<and>
       js_le (calculateHumidity (Fin 20) (Fin 15)) (Fin 100)))"
proof -
  have m: "Call_calculateDewPoint (Fin 20) (calculateHumidity (Fin 20) (Fin 15))
     \<in> set (fst (recalculate reading_20_15 (card_init reading_20_15)))"
    by (simp add: recalculate_def card_init_def reading_20_15_def Let_def)
  from dew_point_call_arguments [OF m] m show ?thesis by blast
qed

text \<open>
  Mounted with dry 20 and wet 0, the card calls \<^verbatim>\<open>calculateDewPoint(20, 0)\<close>; 0 is not
  above 0.  The dew point it stores and shows is NaN.
\<close>

theorem dew_point_called_with_zero_humidity:
  "Call_calculateDewPoint (Fin 20) (Fin 0)
     \<in> set (fst (recalculate reading_20_0 (card_init reading_20_0))) \<and>
   \<not> js_gt (Fin 0) (Fin 0) \<and>
   dewPoint (result (mount reading_20_0)) = Some NaN \<and>
   shown_dewPoint (mount reading_20_0) = Some NaN"
  by (simp add: recalculate_def mount_def card_init_def reading_20_0_def Let_def humidity_20_0
      dew_point_20_0 shown_dewPoint_def truthy_def)

text \<open>
  C6.  When the oracle's response has \<^verbatim>\<open>isPsychrometer\<close> true and wet above dry, the
  adapter does not fail and returns the response itself, every field as received.
\<close>

theorem inconsistent_response_returned_unchanged:
  assumes "generateContent (build_parts base64 examples) = Response d"
      and "isPsychrometer d"
      and "js_gt (wetTemp d) (dryTemp d)"
  shows "analyzeHygrometer generateContent base64 examples = Inr d"
  using assms by (simp add: analyzeHygrometer_def analyze_try_def)

theorem inconsistent_response_returned_unchanged_witness:
  "(\<lambda>ps. Response reading_20_25) (build_parts ''photo'' []) = Response reading_20_25 \<and>
   isPsychrometer reading_20_25 \<and>
   js_gt (wetTemp reading_20_25) (dryTemp reading_20_25) \<and>
   analyzeHygrometer (\<lambda>ps. Response reading_20_25) ''photo'' [] = Inr reading_20_25"
proof -
  have p: "isPsychrometer reading_20_25" by (simp add: reading_20_25_def)
  have g: "js_gt (wetTemp reading_20_25) (dryTemp reading_20_25)"
    by (simp add: reading_20_25_def)
  from inconsistent_response_returned_unchanged
    [of "\<lambda>ps. Response reading_20_25" "''photo''" "[]" reading_20_25, OF refl p g] p g
  show ?thesis by simp
qed

text \<open>
  C7.  The claim: \<^verbatim>\<open>calculateHumidity(t, t)\<close> is 100.0 for every \<open>t\<close>.  It is NaN at
  \<open>t = -243.5\<close>, where the saturation pressure is 0.  What holds: it is 100 for every
  finite \<open>t\<close> whose saturation pressure is a finite number other than 0; in this model
  that is every finite \<open>t\<close> but \<open>-243.5\<close>.
\<close>

theorem calculateHumidity_equal_temps:
  assumes "getSaturationVaporPressure (Fin t) = Fin s" and "s \<noteq> 0"
  shows "calculateHumidity (Fin t) (Fin t) = Fin 100"
  unfolding calculateHumidity_def Let_def assms js_sub_def
  by (simp add: assms clamp_fin round1_def)

theorem calculateHumidity_equal_temps_witness:
  "getSaturationVaporPressure (Fin 20) = Fin (6.112 * exp (17.67 * 20 / (20 + 243.5))) \<and>
   6.112 * exp (17.67 * 20 / (20 + 243.5)) \<noteq> (0::real) \<and>
   calculateHumidity (Fin 20) (Fin 20) = Fin 100"
  using calculateHumidity_equal_temps [of 20 "6.112 * exp (17.67 * 20 / (20 + 243.5))"]
    pressure_20
  by simp

theorem calculateHumidity_equal_temps_counterexample:
  "calculateHumidity (Fin (- 243.5)) (Fin (- 243.5)) \<noteq> Fin 100"
  unfolding humidity_at_pole by simp

text \<open>
  C9.  The claim: a persisted record that is absent or cannot be read as a list of
  exemplars gives an empty buffer at start, without a failure.  That holds for a record
  that is absent, empty or not JSON.  A record that is JSON but no list of exemplars is
  put into the state as it is.  What holds: when the record is absent, is the empty
  text, or makes \<^verbatim>\<open>JSON.parse\<close> throw, the load leaves the application in its initial
  state, with an empty buffer, no error message and the state \<^verbatim>\<open>IDLE\<close>.
\<close>

theorem load_tolerates_absent_or_corrupt_record:
  assumes "p = Absent \<or> p = Empty_text \<or> p = Corrupt_text m"
  shows "load_effect (initial_app p) = Inr (initial_app p) \<and>
         trainingExamples (initial_app p) = [] \<and>
         errorMsg (initial_app p) = None \<and>
         appState (initial_app p) = IDLE"
  using assms by (auto simp: load_effect_def initial_app_def)

theorem load_tolerates_absent_or_corrupt_record_witness:
  "(Corrupt_text ''{oops'' = Absent \<or> Corrupt_text ''{oops'' = Empty_text \<or>
    Corrupt_text ''{oops'' = Corrupt_text ''{oops'') \<and>
   load_effect (initial_app (Corrupt_text ''{oops'')) = Inr (initial_app (Corrupt_text ''{oops'')) \<and>
   trainingExamples (initial_app (Corrupt_text ''{oops'')) = []"
  using load_tolerates_absent_or_corrupt_record [of "Corrupt_text ''{oops''" "''{oops''"]
  by simp

text \<open>The record \<^verbatim>\<open>null\<close>: it parses, and the buffer becomes \<^verbatim>\<open>null\<close>, not the empty list.\<close>

theorem load_null_record_counterexample:
  "load_effect (initial_app (Json_text JNull)) = Inl (Not_an_exemplar_list JNull)"
  by (simp add: load_effect_def initial_app_def as_TrainingExamples_def)

text \<open>
  C10.  An edit of a reading whose text is empty, is a lone minus sign, or is read as
  NaN by \<^verbatim>\<open>parseFloat\<close> sets no new readings: the handler returns without an update,
  the card is exactly as before (readings, result and flags), and so is the session.
\<close>

theorem unparseable_edit_ignored:
  assumes "value = [] \<or> value = ''-'' \<or> isNaN (parseFloat value)"
  shows "handleChange fld value st = None \<and>
         change_event i fld value st = st \<and>
         step (Field_edited fld value) (a, Some st) = (a, Some st)"
proof -
  have h: "handleChange fld value st = None"
    using assms by (auto simp: handleChange_def Let_def)
  then have c: "change_event i' fld value st = st" for i'
    by (simp add: change_event_def)
  show ?thesis using h c by (simp split: option.splits)
qed

lemma parseFloat_abc: "parseFloat ''abc'' = NaN"
  by (simp add: parseFloat_def parse_unsigned_def is_space_def is_digit_def)

theorem unparseable_edit_ignored_witness:
  "(''abc'' = [] \<or> ''abc'' = ''-'' \<or> isNaN (parseFloat ''abc'')) \<and>
   handleChange F_wetTemp ''abc'' (mount reading_20_15) = None \<and>
   change_event reading_20_15 F_wetTemp ''abc'' (mount reading_20_15) = mount reading_20_15"
proof -
  have n: "isNaN (parseFloat ''abc'')" by (simp add: parseFloat_abc)
  then have "''abc'' = [] \<or> ''abc'' = ''-'' \<or> isNaN (parseFloat ''abc'')" by simp
  from unparseable_edit_ignored [OF this, of F_wetTemp "mount reading_20_15" reading_20_15] n
  show ?thesis by simp
qed

end
